theory Spec2Isabelle
  imports Main "HOL-Library.Monad_Syntax"
begin

section \<open>The constructs the stack declares\<close>

text \<open>
  \<^verbatim>\<open>lib/infra-stack.ts\<close> is one constructor, \<^verbatim>\<open>InfraStack\<close>: a straight line of
  construct declarations with literal properties. Constructs are objects held by reference
  and changed after they are made (a security group gains rules when connections are
  allowed, a container gains port mappings, a service gains its load balancer
  registration), so the model keeps them in a store, the stack, keyed by construct id, and
  a variable of the source holds the id. Every call takes the stack and returns the new
  one. A call that the toolkit would abort (nothing to select, nothing to look up) returns
  \<open>None\<close>.

  The toolkit (aws-cdk-lib) is the library the constructor runs on. Each of its
  constructs is modelled by what it declares into the template from the properties the
  stack passes. A property the stack leaves out is an \<open>option\<close> field set to \<open>None\<close>, so
  that the default the toolkit applies is written out where it is applied.
\<close>

subsection \<open>Network\<close>

datatype SubnetType = PUBLIC | PRIVATE_WITH_EGRESS | PRIVATE_ISOLATED

record SubnetConfiguration =
  cidrMask :: nat
  name :: string
  subnetType :: SubnetType

record VpcProps =
  maxAzs :: nat
  natGateways :: nat
  subnetConfiguration :: "SubnetConfiguration list"

record Subnet =
  subnetGroup :: string
  availabilityZone :: string
  subnetTier :: SubnetType
  subnetCidrMask :: nat

record Vpc =
  vpcAvailabilityZones :: "string list"
  publicSubnets :: "Subnet list"
  privateSubnets :: "Subnet list"
  isolatedSubnets :: "Subnet list"
  natGatewaySubnets :: "Subnet list"

text \<open>A subnet selection names a tier; the empty selection \<^verbatim>\<open>{}\<close> is \<open>None\<close>.\<close>

type_synonym SubnetSelection = "SubnetType option"

subsection \<open>Security groups\<close>

datatype Peer = anyIpv4 | securityGroupPeer string

datatype Port = tcp nat | udp nat | allTraffic

text \<open>
  A rule is its peer and its port range: the toolkit tells rules apart by these two, the
  description is a label.
\<close>

record Rule =
  peer :: Peer
  connection :: Port

record SecurityGroupProps =
  sg_vpc :: string
  sg_description :: string
  sg_allowAllOutbound :: bool

record SecurityGroup =
  securityGroupVpc :: string
  description :: string
  allowAllOutbound :: bool
  ingressRules :: "Rule list"
  egressRules :: "Rule list"

subsection \<open>Containers\<close>

datatype Protocol = TCP | UDP

datatype ContainerImage = fromEcrRepository string

datatype LogDriver = awsLogs string

record FargateTaskDefinitionProps =
  memoryLimitMiB :: nat
  cpu :: nat

record ContainerDefinitionOptions =
  co_image :: ContainerImage
  co_logging :: LogDriver

record PortMapping =
  containerPort :: nat
  protocol :: Protocol

record ContainerDefinition =
  containerName :: string
  containerImage :: ContainerImage
  logging :: LogDriver
  portMappings :: "PortMapping list"

record TaskDefinition =
  taskMemoryLimitMiB :: nat
  taskCpu :: nat
  containers :: "ContainerDefinition list"

record FargateServiceProps =
  fs_cluster :: string
  fs_taskDefinition :: string
  fs_securityGroups :: "string list"
  fs_assignPublicIp :: bool
  fs_desiredCount :: nat
  fs_vpcSubnets :: SubnetSelection

text \<open>One entry of a service's load balancer registrations.\<close>

record LoadBalancerTarget =
  targetGroup :: string
  targetContainerName :: string
  targetContainerPort :: nat

record FargateService =
  serviceCluster :: string
  serviceTaskDefinition :: string
  serviceSecurityGroups :: "string list"
  assignPublicIp :: bool
  desiredCount :: nat
  serviceSubnets :: "Subnet list"
  loadBalancers :: "LoadBalancerTarget list"

subsection \<open>Load balancer\<close>

record ApplicationLoadBalancerProps =
  alb_vpc :: string
  alb_internetFacing :: bool
  alb_vpcSubnets :: "SubnetSelection option"
  alb_securityGroup :: "string option"

record ApplicationLoadBalancer =
  loadBalancerVpc :: string
  internetFacing :: bool
  loadBalancerSubnets :: "Subnet list"
  loadBalancerSecurityGroups :: "string list"

record ListenerProps =
  ls_port :: nat
  ls_open :: "bool option"

record ApplicationListener =
  listenerLoadBalancer :: string
  listenerPort :: nat
  defaultTargetGroups :: "string list"

record AddTargetsProps =
  at_port :: nat
  at_targets :: "string list"

record ApplicationTargetGroup =
  targetGroupPort :: nat
  targets :: "string list"

subsection \<open>Database\<close>

datatype Engine = postgres string

datatype Credentials = fromGeneratedSecret string

datatype Duration = days nat

datatype RemovalPolicy = DESTROY | RETAIN | SNAPSHOT

record DatabaseInstanceProps =
  db_engine :: Engine
  db_instanceType :: string
  db_vpc :: string
  db_vpcSubnets :: SubnetSelection
  db_securityGroups :: "string list option"
  db_credentials :: Credentials
  db_multiAz :: bool
  db_allocatedStorage :: nat
  db_maxAllocatedStorage :: nat
  db_deletionProtection :: bool
  db_backupRetention :: Duration
  db_removalPolicy :: "RemovalPolicy option"

record DatabaseSecret =
  secretUsername :: string
  generatedPassword :: bool

record DatabaseInstance =
  engine :: Engine
  instanceType :: string
  databaseSubnets :: "Subnet list"
  databaseSecurityGroups :: "string list"
  masterUsername :: string
  secret :: string
  multiAz :: bool
  allocatedStorage :: nat
  maxAllocatedStorage :: nat
  deletionProtection :: bool
  backupRetention :: Duration
  removalPolicy :: RemovalPolicy

subsection \<open>Outputs and the stack\<close>

text \<open>An output's value is an attribute of a construct, resolved at deployment.\<close>

datatype Token = GetAtt string string

record Stack =
  availabilityZones :: "string list"
  vpcs :: "(string \<times> Vpc) list"
  securityGroups :: "(string \<times> SecurityGroup) list"
  clusters :: "(string \<times> string) list"
  taskDefinitions :: "(string \<times> TaskDefinition) list"
  services :: "(string \<times> FargateService) list"
  applicationLoadBalancers :: "(string \<times> ApplicationLoadBalancer) list"
  listeners :: "(string \<times> ApplicationListener) list"
  targetGroups :: "(string \<times> ApplicationTargetGroup) list"
  secrets :: "(string \<times> DatabaseSecret) list"
  databases :: "(string \<times> DatabaseInstance) list"
  outputs :: "(string \<times> Token) list"

section \<open>The toolkit's operations\<close>

text \<open>
  \<^verbatim>\<open>super(scope, id, props)\<close>: the base class resolves the availability zones of the
  target environment from the scope and the properties; these zones are the model's
  input. The stack starts with no construct.
\<close>

definition Stack_new :: "string list \<Rightarrow> Stack" where
  "Stack_new zones =
     \<lparr>availabilityZones = zones, vpcs = [], securityGroups = [], clusters = [],
      taskDefinitions = [], services = [], applicationLoadBalancers = [], listeners = [],
      targetGroups = [], secrets = [], databases = [], outputs = []\<rparr>"

text \<open>Changing one construct of a store in place.\<close>

definition modify :: "string \<Rightarrow> ('a \<Rightarrow> 'a) \<Rightarrow> (string \<times> 'a) list \<Rightarrow> (string \<times> 'a) list" where
  "modify k f store = map (\<lambda>(i, x). if i = k then (i, f x) else (i, x)) store"

subsection \<open>\<^verbatim>\<open>ec2.Vpc\<close>\<close>

definition subnetIn :: "SubnetConfiguration \<Rightarrow> string \<Rightarrow> Subnet" where
  "subnetIn c zone =
     \<lparr>subnetGroup = name c, availabilityZone = zone, subnetTier = subnetType c,
      subnetCidrMask = cidrMask c\<rparr>"

text \<open>
  The network uses the first \<open>maxAzs\<close> zones of the stack, has one subnet of every
  configured group in each of them, and puts NAT gateways into its first public subnets: as
  many as asked for, at most one per zone.
\<close>

definition Vpc_new :: "string \<Rightarrow> VpcProps \<Rightarrow> Stack \<Rightarrow> string \<times> Stack" where
  "Vpc_new ident props this =
     (let zones = take (maxAzs props) (availabilityZones this);
          tier = (\<lambda>t. concat (map (\<lambda>c. map (subnetIn c) zones)
                     (filter (\<lambda>c. subnetType c = t) (subnetConfiguration props))));
          natCount = min (natGateways props) (length zones);
          vpc = \<lparr>vpcAvailabilityZones = zones,
                 publicSubnets = tier PUBLIC,
                 privateSubnets = tier PRIVATE_WITH_EGRESS,
                 isolatedSubnets = tier PRIVATE_ISOLATED,
                 natGatewaySubnets = take natCount (tier PUBLIC)\<rparr>
      in (ident, this\<lparr>vpcs := vpcs this @ [(ident, vpc)]\<rparr>))"

text \<open>
  \<^verbatim>\<open>vpc.selectSubnets\<close>: all subnets of the selected tier; with the empty selection the
  private tier when the network has one, else the isolated, else the public tier. The
  toolkit refuses a tier with no subnet.
\<close>

definition selectSubnets :: "Vpc \<Rightarrow> SubnetSelection \<Rightarrow> Subnet list option" where
  "selectSubnets vpc selection =
     (let t = (case selection of
                 Some t \<Rightarrow> t
               | None \<Rightarrow>
                   if privateSubnets vpc \<noteq> [] then PRIVATE_WITH_EGRESS
                   else if isolatedSubnets vpc \<noteq> [] then PRIVATE_ISOLATED
                   else PUBLIC);
          subnets = (case t of
                       PUBLIC \<Rightarrow> publicSubnets vpc
                     | PRIVATE_WITH_EGRESS \<Rightarrow> privateSubnets vpc
                     | PRIVATE_ISOLATED \<Rightarrow> isolatedSubnets vpc)
      in if subnets = [] then None else Some subnets)"

subsection \<open>\<^verbatim>\<open>ec2.SecurityGroup\<close> and \<^verbatim>\<open>connections\<close>\<close>

text \<open>
  A new group has no inbound rule. With \<open>allowAllOutbound\<close> it has the one outbound rule
  for all traffic to anywhere, without it none.
\<close>

definition SecurityGroup_new :: "string \<Rightarrow> SecurityGroupProps \<Rightarrow> Stack \<Rightarrow> string \<times> Stack" where
  "SecurityGroup_new ident props this =
     (let grp = \<lparr>securityGroupVpc = sg_vpc props,
                   description = sg_description props,
                   allowAllOutbound = sg_allowAllOutbound props,
                   ingressRules = [],
                   egressRules =
                     (if sg_allowAllOutbound props
                      then [\<lparr>peer = anyIpv4, connection = allTraffic\<rparr>] else [])\<rparr>
      in (ident, this\<lparr>securityGroups := securityGroups this @ [(ident, grp)]\<rparr>))"

text \<open>A rule is added once; a group that allows all outbound traffic takes no further
  outbound rule.\<close>

definition addIngressRule :: "string \<Rightarrow> Peer \<Rightarrow> Port \<Rightarrow> Stack \<Rightarrow> Stack" where
  "addIngressRule grp p portRange this =
     this\<lparr>securityGroups := modify grp
       (\<lambda>g. if \<lparr>peer = p, connection = portRange\<rparr> \<in> set (ingressRules g) then g
            else g\<lparr>ingressRules := ingressRules g @ [\<lparr>peer = p, connection = portRange\<rparr>]\<rparr>)
       (securityGroups this)\<rparr>"

definition addEgressRule :: "string \<Rightarrow> Peer \<Rightarrow> Port \<Rightarrow> Stack \<Rightarrow> Stack" where
  "addEgressRule grp p portRange this =
     this\<lparr>securityGroups := modify grp
       (\<lambda>g. if allowAllOutbound g \<or> \<lparr>peer = p, connection = portRange\<rparr> \<in> set (egressRules g) then g
            else g\<lparr>egressRules := egressRules g @ [\<lparr>peer = p, connection = portRange\<rparr>]\<rparr>)
       (securityGroups this)\<rparr>"

text \<open>
  \<^verbatim>\<open>x.connections\<close>: the security groups that stand for a construct in a connection. A
  security group stands for itself.
\<close>

definition connections :: "Stack \<Rightarrow> string \<Rightarrow> string list option" where
  "connections this c =
     (case map_of (securityGroups this) c of
        Some g \<Rightarrow> Some [c]
      | None \<Rightarrow>
     (case map_of (services this) c of
        Some s \<Rightarrow> Some (serviceSecurityGroups s)
      | None \<Rightarrow>
     (case map_of (applicationLoadBalancers this) c of
        Some l \<Rightarrow> Some (loadBalancerSecurityGroups l)
      | None \<Rightarrow>
     (case map_of (databases this) c of
        Some d \<Rightarrow> Some (databaseSecurityGroups d)
      | None \<Rightarrow> None))))"

text \<open>
  \<^verbatim>\<open>self.connections.allowFrom(other, portRange, description)\<close>: every group of \<open>self\<close>
  gains an inbound rule for every group of \<open>other\<close>, and every group of \<open>other\<close> the
  matching outbound rule.
\<close>

definition allowFrom :: "string \<Rightarrow> string \<Rightarrow> Port \<Rightarrow> string \<Rightarrow> Stack \<Rightarrow> Stack option" where
  "allowFrom self other portRange label this = do {
     mine \<leftarrow> connections this self;
     theirs \<leftarrow> connections this other;
     let this = fold (\<lambda>g. fold (\<lambda>p. addIngressRule g (securityGroupPeer p) portRange) theirs) mine this;
     let this = fold (\<lambda>p. fold (\<lambda>g. addEgressRule p (securityGroupPeer g) portRange) mine) theirs this;
     Some this
   }"

subsection \<open>\<^verbatim>\<open>ecr.Repository\<close>, \<^verbatim>\<open>ecs.Cluster\<close>, \<^verbatim>\<open>ecs.FargateTaskDefinition\<close>\<close>

text \<open>A repository taken by name is a reference: it declares nothing.\<close>

definition fromRepositoryName :: "string \<Rightarrow> string \<Rightarrow> string" where
  "fromRepositoryName ident repositoryName = repositoryName"

definition Cluster_new :: "string \<Rightarrow> string \<Rightarrow> Stack \<Rightarrow> string \<times> Stack" where
  "Cluster_new ident vpc this = (ident, this\<lparr>clusters := clusters this @ [(ident, vpc)]\<rparr>)"

definition FargateTaskDefinition_new ::
  "string \<Rightarrow> FargateTaskDefinitionProps \<Rightarrow> Stack \<Rightarrow> string \<times> Stack" where
  "FargateTaskDefinition_new ident props this =
     (ident, this\<lparr>taskDefinitions := taskDefinitions this @
        [(ident, \<lparr>taskMemoryLimitMiB = memoryLimitMiB props, taskCpu = cpu props,
                  containers = []\<rparr>)]\<rparr>)"

text \<open>A container is known by its task definition and its name.\<close>

definition addContainer ::
  "string \<Rightarrow> string \<Rightarrow> ContainerDefinitionOptions \<Rightarrow> Stack \<Rightarrow> (string \<times> string) \<times> Stack" where
  "addContainer taskDefinition ident props this =
     ((taskDefinition, ident),
      this\<lparr>taskDefinitions := modify taskDefinition
        (\<lambda>t. t\<lparr>containers := containers t @
           [\<lparr>containerName = ident, containerImage = co_image props,
             logging = co_logging props, portMappings = []\<rparr>]\<rparr>)
        (taskDefinitions this)\<rparr>)"

definition addPortMappings :: "string \<times> string \<Rightarrow> PortMapping \<Rightarrow> Stack \<Rightarrow> Stack" where
  "addPortMappings container mapping this =
     this\<lparr>taskDefinitions := modify (fst container)
       (\<lambda>t. t\<lparr>containers := map
          (\<lambda>c. if containerName c = snd container
               then c\<lparr>portMappings := portMappings c @ [mapping]\<rparr> else c)
          (containers t)\<rparr>)
       (taskDefinitions this)\<rparr>"

subsection \<open>\<^verbatim>\<open>ecs.FargateService\<close>\<close>

text \<open>The service runs in the selected subnets of its cluster's network.\<close>

definition FargateService_new ::
  "string \<Rightarrow> FargateServiceProps \<Rightarrow> Stack \<Rightarrow> (string \<times> Stack) option" where
  "FargateService_new ident props this = do {
     network \<leftarrow> map_of (clusters this) (fs_cluster props);
     vpc \<leftarrow> map_of (vpcs this) network;
     subnets \<leftarrow> selectSubnets vpc (fs_vpcSubnets props);
     let service = \<lparr>serviceCluster = fs_cluster props,
                     serviceTaskDefinition = fs_taskDefinition props,
                     serviceSecurityGroups = fs_securityGroups props,
                     assignPublicIp = fs_assignPublicIp props,
                     desiredCount = fs_desiredCount props,
                     serviceSubnets = subnets,
                     loadBalancers = []\<rparr>;
     Some (ident, this\<lparr>services := services this @ [(ident, service)]\<rparr>)
   }"

subsection \<open>\<^verbatim>\<open>elbv2.ApplicationLoadBalancer\<close>, its listener and targets\<close>

text \<open>
  Without a subnet selection an internet-facing load balancer takes the public tier, an
  internal one the empty selection. Without a security group it makes its own, which
  allows no outbound traffic until a target is connected.
\<close>

definition ApplicationLoadBalancer_new ::
  "string \<Rightarrow> ApplicationLoadBalancerProps \<Rightarrow> Stack \<Rightarrow> (string \<times> Stack) option" where
  "ApplicationLoadBalancer_new ident props this = do {
     vpc \<leftarrow> map_of (vpcs this) (alb_vpc props);
     subnets \<leftarrow> selectSubnets vpc
       (case alb_vpcSubnets props of
          Some selection \<Rightarrow> selection
        | None \<Rightarrow> if alb_internetFacing props then Some PUBLIC else None);
     let (grp, this) =
       (case alb_securityGroup props of
          Some g \<Rightarrow> (g, this)
        | None \<Rightarrow> SecurityGroup_new (ident @ ''/SecurityGroup'')
            \<lparr>sg_vpc = alb_vpc props,
             sg_description = ''Automatically created Security Group for ELB'',
             sg_allowAllOutbound = False\<rparr> this);
     let lb = \<lparr>loadBalancerVpc = alb_vpc props,
                internetFacing = alb_internetFacing props,
                loadBalancerSubnets = subnets,
                loadBalancerSecurityGroups = [grp]\<rparr>;
     Some (ident, this\<lparr>applicationLoadBalancers := applicationLoadBalancers this @ [(ident, lb)]\<rparr>)
   }"

text \<open>
  \<^verbatim>\<open>lb.addListener\<close>: a listener is open unless told otherwise, and an open listener lets
  anyone reach the load balancer on the listener's port.
\<close>

definition addListener :: "string \<Rightarrow> string \<Rightarrow> ListenerProps \<Rightarrow> Stack \<Rightarrow> (string \<times> Stack) option" where
  "addListener lb ident props this = do {
     groups \<leftarrow> connections this lb;
     let listener = \<lparr>listenerLoadBalancer = lb, listenerPort = ls_port props,
                      defaultTargetGroups = []\<rparr>;
     let this = this\<lparr>listeners := listeners this @ [(ident, listener)]\<rparr>;
     let this = (if ls_open props = Some False then this
                 else fold (\<lambda>g. addIngressRule g anyIpv4 (tcp (ls_port props))) groups this);
     Some (ident, this)
   }"

text \<open>
  A service is attached to a target group through its default container, the first of its
  task definition, at that container's first port mapping; the toolkit refuses a container
  with no port mapping. The attachment is recorded on the service, and the load balancer
  is allowed to reach the service on the container's port.
\<close>

definition attachToApplicationTargetGroup ::
  "string \<Rightarrow> string \<Rightarrow> string \<Rightarrow> Stack \<Rightarrow> Stack option" where
  "attachToApplicationTargetGroup service grp lb this = do {
     s \<leftarrow> map_of (services this) service;
     t \<leftarrow> map_of (taskDefinitions this) (serviceTaskDefinition s);
     c \<leftarrow> (case containers t of [] \<Rightarrow> None | c # cs \<Rightarrow> Some c);
     m \<leftarrow> (case portMappings c of [] \<Rightarrow> None | m # ms \<Rightarrow> Some m);
     let this = this\<lparr>services := modify service
       (\<lambda>s. s\<lparr>loadBalancers := loadBalancers s @
          [\<lparr>targetGroup = grp, targetContainerName = containerName c,
            targetContainerPort = containerPort m\<rparr>]\<rparr>)
       (services this)\<rparr>;
     allowFrom service lb
       (case protocol m of TCP \<Rightarrow> tcp (containerPort m) | UDP \<Rightarrow> udp (containerPort m))
       ''Load balancer to target'' this
   }"

fun attachAll :: "string list \<Rightarrow> string \<Rightarrow> string \<Rightarrow> Stack \<Rightarrow> Stack option" where
  "attachAll [] grp lb this = Some this"
| "attachAll (service # rest) grp lb this = do {
     this \<leftarrow> attachToApplicationTargetGroup service grp lb this;
     attachAll rest grp lb this
   }"

text \<open>
  \<^verbatim>\<open>listener.addTargets\<close>: a target group with the given port and targets, made the
  listener's default action.
\<close>

definition addTargets :: "string \<Rightarrow> string \<Rightarrow> AddTargetsProps \<Rightarrow> Stack \<Rightarrow> Stack option" where
  "addTargets listener ident props this = do {
     l \<leftarrow> map_of (listeners this) listener;
     let grp = \<lparr>targetGroupPort = at_port props, targets = at_targets props\<rparr>;
     let this = this\<lparr>targetGroups := targetGroups this @ [(ident, grp)]\<rparr>;
     this \<leftarrow> attachAll (at_targets props) ident (listenerLoadBalancer l) this;
     Some (this\<lparr>listeners := modify listener
       (\<lambda>l. l\<lparr>defaultTargetGroups := defaultTargetGroups l @ [ident]\<rparr>) (listeners this)\<rparr>)
   }"

definition loadBalancerDnsName :: "string \<Rightarrow> Token" where
  "loadBalancerDnsName lb = GetAtt lb ''DNSName''"

subsection \<open>\<^verbatim>\<open>cdk.CfnOutput\<close>\<close>

definition CfnOutput_new :: "string \<Rightarrow> Token \<Rightarrow> Stack \<Rightarrow> Stack" where
  "CfnOutput_new ident v this = this\<lparr>outputs := outputs this @ [(ident, v)]\<rparr>"

subsection \<open>\<^verbatim>\<open>rds.DatabaseInstance\<close>\<close>

text \<open>
  The instance sits in the selected subnets of its network. Without security groups it
  makes its own. Credentials from a generated secret declare that secret, with a generated
  password for the given user. Without a removal policy the instance is removed with a
  final snapshot.
\<close>

definition DatabaseInstance_new ::
  "string \<Rightarrow> DatabaseInstanceProps \<Rightarrow> Stack \<Rightarrow> (string \<times> Stack) option" where
  "DatabaseInstance_new ident props this = do {
     vpc \<leftarrow> map_of (vpcs this) (db_vpc props);
     subnets \<leftarrow> selectSubnets vpc (db_vpcSubnets props);
     let (groups, this) =
       (case db_securityGroups props of
          Some gs \<Rightarrow> (gs, this)
        | None \<Rightarrow>
            (let (g, this) = SecurityGroup_new (ident @ ''/SecurityGroup'')
                   \<lparr>sg_vpc = db_vpc props,
                    sg_description = ''Security group for '' @ ident @ '' database'',
                    sg_allowAllOutbound = True\<rparr> this
             in ([g], this)));
     let user = (case db_credentials props of fromGeneratedSecret username \<Rightarrow> username);
     let this = this\<lparr>secrets := secrets this @
       [(ident @ ''/Secret'', \<lparr>secretUsername = user, generatedPassword = True\<rparr>)]\<rparr>;
     let inst = \<lparr>engine = db_engine props,
                      instanceType = db_instanceType props,
                      databaseSubnets = subnets,
                      databaseSecurityGroups = groups,
                      masterUsername = user,
                      secret = ident @ ''/Secret'',
                      multiAz = db_multiAz props,
                      allocatedStorage = db_allocatedStorage props,
                      maxAllocatedStorage = db_maxAllocatedStorage props,
                      deletionProtection = db_deletionProtection props,
                      backupRetention = db_backupRetention props,
                      removalPolicy =
                        (case db_removalPolicy props of Some p \<Rightarrow> p | None \<Rightarrow> SNAPSHOT)\<rparr>;
     Some (ident, this\<lparr>databases := databases this @ [(ident, inst)]\<rparr>)
   }"

definition dbInstanceEndpointAddress :: "string \<Rightarrow> Token" where
  "dbInstanceEndpointAddress db = GetAtt db ''Endpoint.Address''"

section \<open>The stack\<close>

text \<open>The constructor of \<^verbatim>\<open>InfraStack\<close>, statement by statement.\<close>

definition InfraStack :: "string list \<Rightarrow> Stack option" where
  "InfraStack zones = do {
     let this = Stack_new zones;
     let (vpc, this) = Vpc_new ''MyVpc''
       \<lparr>maxAzs = 2,
        natGateways = 1,
        subnetConfiguration =
          [\<lparr>cidrMask = 24, name = ''publicSubnet'', subnetType = PUBLIC\<rparr>,
           \<lparr>cidrMask = 24, name = ''privateSubnet'', subnetType = PRIVATE_WITH_EGRESS\<rparr>]\<rparr> this;
     let (ecsSecurityGroup, this) = SecurityGroup_new ''ECSSecurityGroup''
       \<lparr>sg_vpc = vpc,
        sg_description = ''Allow internal traffic to ECS Service'',
        sg_allowAllOutbound = True\<rparr> this;
     let repository = fromRepositoryName ''MyRepository'' ''teju-ecr'';
     let (cluster, this) = Cluster_new ''MyCluster'' vpc this;
     let (taskDefinition, this) = FargateTaskDefinition_new ''MyTaskDefinition''
       \<lparr>memoryLimitMiB = 512, cpu = 256\<rparr> this;
     let (container, this) = addContainer taskDefinition ''MyContainer''
       \<lparr>co_image = fromEcrRepository repository, co_logging = awsLogs ''MyApp''\<rparr> this;
     let this = addPortMappings container \<lparr>containerPort = 5001, protocol = TCP\<rparr> this;
     (service, this) \<leftarrow> FargateService_new ''MyService''
       \<lparr>fs_cluster = cluster,
        fs_taskDefinition = taskDefinition,
        fs_securityGroups = [ecsSecurityGroup],
        fs_assignPublicIp = False,
        fs_desiredCount = 1,
        fs_vpcSubnets = Some PRIVATE_WITH_EGRESS\<rparr> this;
     (lb, this) \<leftarrow> ApplicationLoadBalancer_new ''MyALB''
       \<lparr>alb_vpc = vpc, alb_internetFacing = True, alb_vpcSubnets = None,
        alb_securityGroup = None\<rparr> this;
     (listener, this) \<leftarrow> addListener lb ''MyListener'' \<lparr>ls_port = 80, ls_open = None\<rparr> this;
     this \<leftarrow> addTargets listener ''MyFargateService''
       \<lparr>at_port = 80, at_targets = [service]\<rparr> this;
     let this = CfnOutput_new ''LoadBalancerDNS'' (loadBalancerDnsName lb) this;
     (dbInstance, this) \<leftarrow> DatabaseInstance_new ''MyDatabase''
       \<lparr>db_engine = postgres ''13.13'',
        db_instanceType = ''t3.micro'',
        db_vpc = vpc,
        db_vpcSubnets = Some PRIVATE_WITH_EGRESS,
        db_securityGroups = None,
        db_credentials = fromGeneratedSecret ''myadmin'',
        db_multiAz = False,
        db_allocatedStorage = 20,
        db_maxAllocatedStorage = 100,
        db_deletionProtection = False,
        db_backupRetention = days 7,
        db_removalPolicy = None\<rparr> this;
     let this = CfnOutput_new ''DatabaseEndpoint'' (dbInstanceEndpointAddress dbInstance) this;
     allowFrom dbInstance ecsSecurityGroup (tcp 5432) ''Allow inbound from ECS'' this
   }"

section \<open>Reading the template\<close>

text \<open>
  Read off a stack: the number of zones of each of its networks, the container ports under
  which its services are registered with a target group, and the container ports its task
  definitions map.
\<close>

definition zoneCounts :: "Stack \<Rightarrow> nat list" where
  "zoneCounts this = map (\<lambda>(i, v). length (vpcAvailabilityZones v)) (vpcs this)"



section \<open>Running the constructor\<close>

lemmas operations = InfraStack_def Stack_new_def Vpc_new_def SecurityGroup_new_def
  fromRepositoryName_def Cluster_new_def FargateTaskDefinition_new_def addContainer_def
  addPortMappings_def FargateService_new_def ApplicationLoadBalancer_new_def addListener_def
  addTargets_def attachToApplicationTargetGroup_def allowFrom_def connections_def
  addIngressRule_def addEgressRule_def modify_def selectSubnets_def CfnOutput_new_def
  DatabaseInstance_new_def loadBalancerDnsName_def dbInstanceEndpointAddress_def

text \<open>
  The constructor is run from its first statement to its last: a step is simplified only
  once the stack it starts from is known, never ahead of the steps before it.
\<close>

lemma bind_step: "m = m' \<Longrightarrow> Option.bind m f = Option.bind m' f"
  by simp

lemma one_nat_gateway: "zones \<noteq> [] \<Longrightarrow> min (Suc 0) (min (length zones) 2) = Suc 0"
  by (cases zones) simp_all

text \<open>
  Over at least one zone the constructor succeeds, and this is the stack it leaves.
\<close>

lemma InfraStack_template:
  assumes "zones \<noteq> []"
  shows "InfraStack zones = Some
    \<lparr>availabilityZones = zones,
     vpcs =
       [(''MyVpc'',
         \<lparr>vpcAvailabilityZones = take 2 zones,
          publicSubnets =
            map (subnetIn \<lparr>cidrMask = 24, name = ''publicSubnet'', subnetType = PUBLIC\<rparr>)
              (take 2 zones),
          privateSubnets =
            map (subnetIn
                  \<lparr>cidrMask = 24, name = ''privateSubnet'', subnetType = PRIVATE_WITH_EGRESS\<rparr>)
              (take 2 zones),
          isolatedSubnets = [],
          natGatewaySubnets =
            take 1 (map (subnetIn
                          \<lparr>cidrMask = 24, name = ''publicSubnet'', subnetType = PUBLIC\<rparr>)
                     (take 2 zones))\<rparr>)],
     securityGroups =
       [(''ECSSecurityGroup'',
         \<lparr>securityGroupVpc = ''MyVpc'',
          description = ''Allow internal traffic to ECS Service'',
          allowAllOutbound = True,
          ingressRules =
            [\<lparr>peer = securityGroupPeer ''MyALB/SecurityGroup'', connection = tcp 5001\<rparr>],
          egressRules = [\<lparr>peer = anyIpv4, connection = allTraffic\<rparr>]\<rparr>),
        (''MyALB/SecurityGroup'',
         \<lparr>securityGroupVpc = ''MyVpc'',
          description = ''Automatically created Security Group for ELB'',
          allowAllOutbound = False,
          ingressRules = [\<lparr>peer = anyIpv4, connection = tcp 80\<rparr>],
          egressRules =
            [\<lparr>peer = securityGroupPeer ''ECSSecurityGroup'', connection = tcp 5001\<rparr>]\<rparr>),
        (''MyDatabase/SecurityGroup'',
         \<lparr>securityGroupVpc = ''MyVpc'',
          description = ''Security group for MyDatabase database'',
          allowAllOutbound = True,
          ingressRules =
            [\<lparr>peer = securityGroupPeer ''ECSSecurityGroup'', connection = tcp 5432\<rparr>],
          egressRules = [\<lparr>peer = anyIpv4, connection = allTraffic\<rparr>]\<rparr>)],
     clusters = [(''MyCluster'', ''MyVpc'')],
     taskDefinitions =
       [(''MyTaskDefinition'',
         \<lparr>taskMemoryLimitMiB = 512, taskCpu = 256,
          containers =
            [\<lparr>containerName = ''MyContainer'',
              containerImage = fromEcrRepository ''teju-ecr'',
              logging = awsLogs ''MyApp'',
              portMappings = [\<lparr>containerPort = 5001, protocol = TCP\<rparr>]\<rparr>]\<rparr>)],
     services =
       [(''MyService'',
         \<lparr>serviceCluster = ''MyCluster'',
          serviceTaskDefinition = ''MyTaskDefinition'',
          serviceSecurityGroups = [''ECSSecurityGroup''],
          assignPublicIp = False, desiredCount = 1,
          serviceSubnets =
            map (subnetIn
                  \<lparr>cidrMask = 24, name = ''privateSubnet'', subnetType = PRIVATE_WITH_EGRESS\<rparr>)
              (take 2 zones),
          loadBalancers =
            [\<lparr>targetGroup = ''MyFargateService'', targetContainerName = ''MyContainer'',
              targetContainerPort = 5001\<rparr>]\<rparr>)],
     applicationLoadBalancers =
       [(''MyALB'',
         \<lparr>loadBalancerVpc = ''MyVpc'', internetFacing = True,
          loadBalancerSubnets =
            map (subnetIn \<lparr>cidrMask = 24, name = ''publicSubnet'', subnetType = PUBLIC\<rparr>)
              (take 2 zones),
          loadBalancerSecurityGroups = [''MyALB/SecurityGroup'']\<rparr>)],
     listeners =
       [(''MyListener'',
         \<lparr>listenerLoadBalancer = ''MyALB'', listenerPort = 80,
          defaultTargetGroups = [''MyFargateService'']\<rparr>)],
     targetGroups =
       [(''MyFargateService'', \<lparr>targetGroupPort = 80, targets = [''MyService'']\<rparr>)],
     secrets =
       [(''MyDatabase/Secret'', \<lparr>secretUsername = ''myadmin'', generatedPassword = True\<rparr>)],
     databases =
       [(''MyDatabase'',
         \<lparr>engine = postgres ''13.13'', instanceType = ''t3.micro'',
          databaseSubnets =
            map (subnetIn
                  \<lparr>cidrMask = 24, name = ''privateSubnet'', subnetType = PRIVATE_WITH_EGRESS\<rparr>)
              (take 2 zones),
          databaseSecurityGroups = [''MyDatabase/SecurityGroup''],
          masterUsername = ''myadmin'', secret = ''MyDatabase/Secret'',
          multiAz = False, allocatedStorage = 20, maxAllocatedStorage = 100,
          deletionProtection = False, backupRetention = days 7,
          removalPolicy = SNAPSHOT\<rparr>)],
     outputs =
       [(''LoadBalancerDNS'', GetAtt ''MyALB'' ''DNSName''),
        (''DatabaseEndpoint'', GetAtt ''MyDatabase'' ''Endpoint.Address'')]\<rparr>"
  using assms
  by (simp add: operations Let_def one_nat_gateway
      cong: bind_step prod.case_cong_weak option.case_cong_weak if_weak_cong let_weak_cong)

text \<open>Without a zone the network has no subnet to select, and the constructor fails.\<close>

lemma InfraStack_no_zone: "InfraStack [] = None"
  by (simp add: operations Let_def
      cong: bind_step prod.case_cong_weak option.case_cong_weak if_weak_cong let_weak_cong)

lemma tier_of_subnetIn:
  "subnetType c = t \<Longrightarrow> list_all (\<lambda>n. subnetTier n = t) (map (subnetIn c) zs)"
  by (induction zs) (simp_all add: subnetIn_def)

lemma zone_of_subnetIn: "map (availabilityZone \<circ> subnetIn c) zs = zs"
  by (induction zs) (simp_all add: subnetIn_def)

section \<open>Properties of the template\<close>

text \<open>
  C8: the template surfaces exactly two outputs: the DNS name attribute of the load
  balancer and the endpoint address attribute of the database instance.
\<close>

theorem two_outputs:
  assumes "zones \<noteq> []"
  shows "\<exists>this. InfraStack zones = Some this \<and>
     outputs this =
       [(''LoadBalancerDNS'', GetAtt ''MyALB'' ''DNSName''),
        (''DatabaseEndpoint'', GetAtt ''MyDatabase'' ''Endpoint.Address'')] \<and>
     map fst (applicationLoadBalancers this) = [''MyALB''] \<and>
     map fst (databases this) = [''MyDatabase'']"
  by (simp add: InfraStack_template [OF assms])

theorem two_outputs_witness:
  "[''eu-west-1a'', ''eu-west-1b''] \<noteq> [] \<and>
   (\<exists>this. InfraStack [''eu-west-1a'', ''eu-west-1b''] = Some this \<and>
      outputs this =
        [(''LoadBalancerDNS'', GetAtt ''MyALB'' ''DNSName''),
         (''DatabaseEndpoint'', GetAtt ''MyDatabase'' ''Endpoint.Address'')] \<and>
      map fst (applicationLoadBalancers this) = [''MyALB''] \<and>
      map fst (databases this) = [''MyDatabase''])"
proof
  show given: "[''eu-west-1a'', ''eu-west-1b''] \<noteq> []" by simp
  show "\<exists>this. InfraStack [''eu-west-1a'', ''eu-west-1b''] = Some this \<and>
     outputs this =
       [(''LoadBalancerDNS'', GetAtt ''MyALB'' ''DNSName''),
        (''DatabaseEndpoint'', GetAtt ''MyDatabase'' ''Endpoint.Address'')] \<and>
     map fst (applicationLoadBalancers this) = [''MyALB''] \<and>
     map fst (databases this) = [''MyDatabase'']"
    by (rule two_outputs [OF given])
qed

text \<open>
  C1: the security group of the database instance has exactly one inbound rule, which lets
  the security group of the compute tasks in on TCP port 5432.
\<close>

theorem database_ingress_only_from_compute:
  assumes "zones \<noteq> []"
  shows "\<exists>this db g s. InfraStack zones = Some this \<and>
     databases this = [(''MyDatabase'', db)] \<and>
     databaseSecurityGroups db = [''MyDatabase/SecurityGroup''] \<and>
     map_of (securityGroups this) ''MyDatabase/SecurityGroup'' = Some g \<and>
     ingressRules g = [\<lparr>peer = securityGroupPeer ''ECSSecurityGroup'', connection = tcp 5432\<rparr>] \<and>
     services this = [(''MyService'', s)] \<and>
     serviceSecurityGroups s = [''ECSSecurityGroup'']"
  by (simp add: InfraStack_template [OF assms])

theorem database_ingress_only_from_compute_witness:
  "[''eu-west-1a'', ''eu-west-1b''] \<noteq> [] \<and>
   (\<exists>this db g s. InfraStack [''eu-west-1a'', ''eu-west-1b''] = Some this \<and>
      databases this = [(''MyDatabase'', db)] \<and>
      databaseSecurityGroups db = [''MyDatabase/SecurityGroup''] \<and>
      map_of (securityGroups this) ''MyDatabase/SecurityGroup'' = Some g \<and>
      ingressRules g = [\<lparr>peer = securityGroupPeer ''ECSSecurityGroup'', connection = tcp 5432\<rparr>] \<and>
      services this = [(''MyService'', s)] \<and>
      serviceSecurityGroups s = [''ECSSecurityGroup''])"
proof
  show given: "[''eu-west-1a'', ''eu-west-1b''] \<noteq> []" by simp
  show "\<exists>this db g s. InfraStack [''eu-west-1a'', ''eu-west-1b''] = Some this \<and>
     databases this = [(''MyDatabase'', db)] \<and>
     databaseSecurityGroups db = [''MyDatabase/SecurityGroup''] \<and>
     map_of (securityGroups this) ''MyDatabase/SecurityGroup'' = Some g \<and>
     ingressRules g = [\<lparr>peer = securityGroupPeer ''ECSSecurityGroup'', connection = tcp 5432\<rparr>] \<and>
     services this = [(''MyService'', s)] \<and>
     serviceSecurityGroups s = [''ECSSecurityGroup'']"
    by (rule database_ingress_only_from_compute [OF given])
qed

text \<open>
  C2: the compute service and the database instance are placed in subnets of the private
  tier only, the load balancer in subnets of the public tier only; each of them is placed
  in the whole tier of the one network, which is not empty.
\<close>

theorem placement_by_tier:
  assumes "zones \<noteq> []"
  shows "\<exists>this vpc s db lb. InfraStack zones = Some this \<and>
     vpcs this = [(''MyVpc'', vpc)] \<and>
     services this = [(''MyService'', s)] \<and>
     databases this = [(''MyDatabase'', db)] \<and>
     applicationLoadBalancers this = [(''MyALB'', lb)] \<and>
     serviceSubnets s = privateSubnets vpc \<and> serviceSubnets s \<noteq> [] \<and>
     list_all (\<lambda>n. subnetTier n = PRIVATE_WITH_EGRESS) (serviceSubnets s) \<and>
     databaseSubnets db = privateSubnets vpc \<and> databaseSubnets db \<noteq> [] \<and>
     list_all (\<lambda>n. subnetTier n = PRIVATE_WITH_EGRESS) (databaseSubnets db) \<and>
     loadBalancerSubnets lb = publicSubnets vpc \<and> loadBalancerSubnets lb \<noteq> [] \<and>
     list_all (\<lambda>n. subnetTier n = PUBLIC) (loadBalancerSubnets lb)"
  using assms by (simp add: InfraStack_template [OF assms] tier_of_subnetIn)

theorem placement_by_tier_witness:
  "[''eu-west-1a'', ''eu-west-1b''] \<noteq> [] \<and>
   (\<exists>this vpc s db lb. InfraStack [''eu-west-1a'', ''eu-west-1b''] = Some this \<and>
      vpcs this = [(''MyVpc'', vpc)] \<and>
      services this = [(''MyService'', s)] \<and>
      databases this = [(''MyDatabase'', db)] \<and>
      applicationLoadBalancers this = [(''MyALB'', lb)] \<and>
      serviceSubnets s = privateSubnets vpc \<and> serviceSubnets s \<noteq> [] \<and>
      list_all (\<lambda>n. subnetTier n = PRIVATE_WITH_EGRESS) (serviceSubnets s) \<and>
      databaseSubnets db = privateSubnets vpc \<and> databaseSubnets db \<noteq> [] \<and>
      list_all (\<lambda>n. subnetTier n = PRIVATE_WITH_EGRESS) (databaseSubnets db) \<and>
      loadBalancerSubnets lb = publicSubnets vpc \<and> loadBalancerSubnets lb \<noteq> [] \<and>
      list_all (\<lambda>n. subnetTier n = PUBLIC) (loadBalancerSubnets lb))"
proof
  show given: "[''eu-west-1a'', ''eu-west-1b''] \<noteq> []" by simp
  show "\<exists>this vpc s db lb. InfraStack [''eu-west-1a'', ''eu-west-1b''] = Some this \<and>
     vpcs this = [(''MyVpc'', vpc)] \<and>
     services this = [(''MyService'', s)] \<and>
     databases this = [(''MyDatabase'', db)] \<and>
     applicationLoadBalancers this = [(''MyALB'', lb)] \<and>
     serviceSubnets s = privateSubnets vpc \<and> serviceSubnets s \<noteq> [] \<and>
     list_all (\<lambda>n. subnetTier n = PRIVATE_WITH_EGRESS) (serviceSubnets s) \<and>
     databaseSubnets db = privateSubnets vpc \<and> databaseSubnets db \<noteq> [] \<and>
     list_all (\<lambda>n. subnetTier n = PRIVATE_WITH_EGRESS) (databaseSubnets db) \<and>
     loadBalancerSubnets lb = publicSubnets vpc \<and> loadBalancerSubnets lb \<noteq> [] \<and>
     list_all (\<lambda>n. subnetTier n = PUBLIC) (loadBalancerSubnets lb)"
    by (rule placement_by_tier [OF given])
qed

text \<open>
  C3: the security group attached to the compute tasks allows all outbound traffic, and
  allows inbound traffic from the load balancer's security group.
\<close>

theorem compute_group_rules:
  assumes "zones \<noteq> []"
  shows "\<exists>this s lb g. InfraStack zones = Some this \<and>
     services this = [(''MyService'', s)] \<and>
     serviceSecurityGroups s = [''ECSSecurityGroup''] \<and>
     applicationLoadBalancers this = [(''MyALB'', lb)] \<and>
     loadBalancerSecurityGroups lb = [''MyALB/SecurityGroup''] \<and>
     map_of (securityGroups this) ''ECSSecurityGroup'' = Some g \<and>
     allowAllOutbound g \<and>
     egressRules g = [\<lparr>peer = anyIpv4, connection = allTraffic\<rparr>] \<and>
     ingressRules g = [\<lparr>peer = securityGroupPeer ''MyALB/SecurityGroup'', connection = tcp 5001\<rparr>]"
  by (simp add: InfraStack_template [OF assms])

theorem compute_group_rules_witness:
  "[''eu-west-1a'', ''eu-west-1b''] \<noteq> [] \<and>
   (\<exists>this s lb g. InfraStack [''eu-west-1a'', ''eu-west-1b''] = Some this \<and>
      services this = [(''MyService'', s)] \<and>
      serviceSecurityGroups s = [''ECSSecurityGroup''] \<and>
      applicationLoadBalancers this = [(''MyALB'', lb)] \<and>
      loadBalancerSecurityGroups lb = [''MyALB/SecurityGroup''] \<and>
      map_of (securityGroups this) ''ECSSecurityGroup'' = Some g \<and>
      allowAllOutbound g \<and>
      egressRules g = [\<lparr>peer = anyIpv4, connection = allTraffic\<rparr>] \<and>
      ingressRules g = [\<lparr>peer = securityGroupPeer ''MyALB/SecurityGroup'', connection = tcp 5001\<rparr>])"
proof
  show given: "[''eu-west-1a'', ''eu-west-1b''] \<noteq> []" by simp
  show "\<exists>this s lb g. InfraStack [''eu-west-1a'', ''eu-west-1b''] = Some this \<and>
     services this = [(''MyService'', s)] \<and>
     serviceSecurityGroups s = [''ECSSecurityGroup''] \<and>
     applicationLoadBalancers this = [(''MyALB'', lb)] \<and>
     loadBalancerSecurityGroups lb = [''MyALB/SecurityGroup''] \<and>
     map_of (securityGroups this) ''ECSSecurityGroup'' = Some g \<and>
     allowAllOutbound g \<and>
     egressRules g = [\<lparr>peer = anyIpv4, connection = allTraffic\<rparr>] \<and>
     ingressRules g = [\<lparr>peer = securityGroupPeer ''MyALB/SecurityGroup'', connection = tcp 5001\<rparr>]"
    by (rule compute_group_rules [OF given])
qed

text \<open>
  C4, as stated, fails: \<open>maxAzs\<close> is a cap. In an environment that offers one zone the
  constructor succeeds and the one network spans that one zone, not two.
\<close>

theorem single_zone_counterexample:
  "map_option zoneCounts (InfraStack [''eu-west-1a'']) = Some [1] \<and>
   map_option zoneCounts (InfraStack [''eu-west-1a'']) \<noteq> Some [2]"
  by (simp add: InfraStack_template zoneCounts_def)

text \<open>
  C4, amended: the template has exactly one network. It spans the first two availability
  zones the environment offers, or the only one when it offers one. It has two subnet tiers,
  one public and one private subnet in each of its zones and no isolated subnet, and one NAT
  gateway, in the first public subnet.
\<close>

theorem one_network_at_most_two_zones:
  assumes "zones \<noteq> []"
  shows "\<exists>this vpc. InfraStack zones = Some this \<and>
     vpcs this = [(''MyVpc'', vpc)] \<and>
     vpcAvailabilityZones vpc = take 2 zones \<and>
     length (vpcAvailabilityZones vpc) = min 2 (length zones) \<and>
     map availabilityZone (publicSubnets vpc) = vpcAvailabilityZones vpc \<and>
     list_all (\<lambda>n. subnetTier n = PUBLIC) (publicSubnets vpc) \<and>
     map availabilityZone (privateSubnets vpc) = vpcAvailabilityZones vpc \<and>
     list_all (\<lambda>n. subnetTier n = PRIVATE_WITH_EGRESS) (privateSubnets vpc) \<and>
     isolatedSubnets vpc = [] \<and>
     natGatewaySubnets vpc = take 1 (publicSubnets vpc) \<and>
     length (natGatewaySubnets vpc) = 1"
proof -
  from assms have "min (Suc 0) (min (length zones) 2) = Suc 0"
    by (rule one_nat_gateway)
  then show ?thesis
    by (simp add: InfraStack_template [OF assms] tier_of_subnetIn zone_of_subnetIn min.commute)
qed

theorem one_network_at_most_two_zones_witness:
  "[''eu-west-1a'', ''eu-west-1b'', ''eu-west-1c''] \<noteq> [] \<and>
   (\<exists>this vpc. InfraStack [''eu-west-1a'', ''eu-west-1b'', ''eu-west-1c''] = Some this \<and>
      vpcs this = [(''MyVpc'', vpc)] \<and>
      vpcAvailabilityZones vpc = take 2 [''eu-west-1a'', ''eu-west-1b'', ''eu-west-1c''] \<and>
      length (vpcAvailabilityZones vpc) = min 2 (length [''eu-west-1a'', ''eu-west-1b'', ''eu-west-1c'']) \<and>
      map availabilityZone (publicSubnets vpc) = vpcAvailabilityZones vpc \<and>
      list_all (\<lambda>n. subnetTier n = PUBLIC) (publicSubnets vpc) \<and>
      map availabilityZone (privateSubnets vpc) = vpcAvailabilityZones vpc \<and>
      list_all (\<lambda>n. subnetTier n = PRIVATE_WITH_EGRESS) (privateSubnets vpc) \<and>
      isolatedSubnets vpc = [] \<and>
      natGatewaySubnets vpc = take 1 (publicSubnets vpc) \<and>
      length (natGatewaySubnets vpc) = 1)"
proof
  show given: "[''eu-west-1a'', ''eu-west-1b'', ''eu-west-1c''] \<noteq> []" by simp
  show "\<exists>this vpc. InfraStack [''eu-west-1a'', ''eu-west-1b'', ''eu-west-1c''] = Some this \<and>
     vpcs this = [(''MyVpc'', vpc)] \<and>
     vpcAvailabilityZones vpc = take 2 [''eu-west-1a'', ''eu-west-1b'', ''eu-west-1c''] \<and>
     length (vpcAvailabilityZones vpc) = min 2 (length [''eu-west-1a'', ''eu-west-1b'', ''eu-west-1c'']) \<and>
     map availabilityZone (publicSubnets vpc) = vpcAvailabilityZones vpc \<and>
     list_all (\<lambda>n. subnetTier n = PUBLIC) (publicSubnets vpc) \<and>
     map availabilityZone (privateSubnets vpc) = vpcAvailabilityZones vpc \<and>
     list_all (\<lambda>n. subnetTier n = PRIVATE_WITH_EGRESS) (privateSubnets vpc) \<and>
     isolatedSubnets vpc = [] \<and>
     natGatewaySubnets vpc = take 1 (publicSubnets vpc) \<and>
     length (natGatewaySubnets vpc) = 1"
    by (rule one_network_at_most_two_zones [OF given])
qed



text \<open>
  C7: the template declares exactly one database instance. It is not multi-AZ, its admin
  user's credentials are a secret with a generated password, its storage is 20 GiB and may
  grow to 100 GiB, and its backups are kept for 7 days.
\<close>

theorem one_database_instance:
  assumes "zones \<noteq> []"
  shows "\<exists>this db. InfraStack zones = Some this \<and>
     databases this = [(''MyDatabase'', db)] \<and>
     \<not> multiAz db \<and>
     masterUsername db = ''myadmin'' \<and>
     map_of (secrets this) (secret db) =
       Some \<lparr>secretUsername = ''myadmin'', generatedPassword = True\<rparr> \<and>
     allocatedStorage db = 20 \<and>
     maxAllocatedStorage db = 100 \<and>
     backupRetention db = days 7"
  by (simp add: InfraStack_template [OF assms])

theorem one_database_instance_witness:
  "[''eu-west-1a'', ''eu-west-1b''] \<noteq> [] \<and>
   (\<exists>this db. InfraStack [''eu-west-1a'', ''eu-west-1b''] = Some this \<and>
      databases this = [(''MyDatabase'', db)] \<and>
      \<not> multiAz db \<and>
      masterUsername db = ''myadmin'' \<and>
      map_of (secrets this) (secret db) =
        Some \<lparr>secretUsername = ''myadmin'', generatedPassword = True\<rparr> \<and>
      allocatedStorage db = 20 \<and>
      maxAllocatedStorage db = 100 \<and>
      backupRetention db = days 7)"
proof
  show given: "[''eu-west-1a'', ''eu-west-1b''] \<noteq> []" by simp
  show "\<exists>this db. InfraStack [''eu-west-1a'', ''eu-west-1b''] = Some this \<and>
     databases this = [(''MyDatabase'', db)] \<and>
     \<not> multiAz db \<and>
     masterUsername db = ''myadmin'' \<and>
     map_of (secrets this) (secret db) =
       Some \<lparr>secretUsername = ''myadmin'', generatedPassword = True\<rparr> \<and>
     allocatedStorage db = 20 \<and>
     maxAllocatedStorage db = 100 \<and>
     backupRetention db = days 7"
    by (rule one_database_instance [OF given])
qed

text \<open>
  C9: the one service of the template launches its tasks without a public IP address, in
  private subnets, behind a security group that lets no one in from the internet at large.
\<close>

theorem tasks_without_public_ip:
  assumes "zones \<noteq> []"
  shows "\<exists>this s g. InfraStack zones = Some this \<and>
     services this = [(''MyService'', s)] \<and>
     \<not> assignPublicIp s \<and>
     list_all (\<lambda>n. subnetTier n = PRIVATE_WITH_EGRESS) (serviceSubnets s) \<and>
     serviceSecurityGroups s = [''ECSSecurityGroup''] \<and>
     map_of (securityGroups this) ''ECSSecurityGroup'' = Some g \<and>
     list_all (\<lambda>r. peer r \<noteq> anyIpv4) (ingressRules g)"
  by (simp add: InfraStack_template [OF assms] tier_of_subnetIn)

theorem tasks_without_public_ip_witness:
  "[''eu-west-1a'', ''eu-west-1b''] \<noteq> [] \<and>
   (\<exists>this s g. InfraStack [''eu-west-1a'', ''eu-west-1b''] = Some this \<and>
      services this = [(''MyService'', s)] \<and>
      \<not> assignPublicIp s \<and>
      list_all (\<lambda>n. subnetTier n = PRIVATE_WITH_EGRESS) (serviceSubnets s) \<and>
      serviceSecurityGroups s = [''ECSSecurityGroup''] \<and>
      map_of (securityGroups this) ''ECSSecurityGroup'' = Some g \<and>
      list_all (\<lambda>r. peer r \<noteq> anyIpv4) (ingressRules g))"
proof
  show given: "[''eu-west-1a'', ''eu-west-1b''] \<noteq> []" by simp
  show "\<exists>this s g. InfraStack [''eu-west-1a'', ''eu-west-1b''] = Some this \<and>
     services this = [(''MyService'', s)] \<and>
     \<not> assignPublicIp s \<and>
     list_all (\<lambda>n. subnetTier n = PRIVATE_WITH_EGRESS) (serviceSubnets s) \<and>
     serviceSecurityGroups s = [''ECSSecurityGroup''] \<and>
     map_of (securityGroups this) ''ECSSecurityGroup'' = Some g \<and>
     list_all (\<lambda>r. peer r \<noteq> anyIpv4) (ingressRules g)"
    by (rule tasks_without_public_ip [OF given])
qed

text \<open>
  C10: the database instance is declared without deletion protection, and it is not
  retained when the stack is torn down.
\<close>

theorem database_unprotected:
  assumes "zones \<noteq> []"
  shows "\<exists>this db. InfraStack zones = Some this \<and>
     databases this = [(''MyDatabase'', db)] \<and>
     \<not> deletionProtection db \<and>
     removalPolicy db \<noteq> RETAIN"
  by (simp add: InfraStack_template [OF assms])

theorem database_unprotected_witness:
  "[''eu-west-1a'', ''eu-west-1b''] \<noteq> [] \<and>
   (\<exists>this db. InfraStack [''eu-west-1a'', ''eu-west-1b''] = Some this \<and>
      databases this = [(''MyDatabase'', db)] \<and>
      \<not> deletionProtection db \<and>
      removalPolicy db \<noteq> RETAIN)"
proof
  show given: "[''eu-west-1a'', ''eu-west-1b''] \<noteq> []" by simp
  show "\<exists>this db. InfraStack [''eu-west-1a'', ''eu-west-1b''] = Some this \<and>
     databases this = [(''MyDatabase'', db)] \<and>
     \<not> deletionProtection db \<and>
     removalPolicy db \<noteq> RETAIN"
    by (rule database_unprotected [OF given])
qed

end
